theory Spec2Isabelle
  imports Complex_Main
begin

section \<open>Time\<close>

text \<open>
  A \<open>datetime\<close> is a count of microseconds (the resolution of Python's
  \<open>datetime\<close>), a \<open>timedelta\<close> the difference of two of them.
  \<open>timedelta.total_seconds()\<close> divides the microsecond count by \<open>10^6\<close>;
  the Python floats of the program are read as real numbers.
\<close>

type_synonym datetime = int
type_synonym timedelta = int

definition total_seconds :: "timedelta \<Rightarrow> real" where
  "total_seconds td = real_of_int td / 1000000"

section \<open>gesture_detection.py: HandGestureDetector\<close>

text \<open>
  The debouncing attributes of \<open>HandGestureDetector.__init__\<close>. The attribute
  \<open>cooldown_period\<close> is called \<open>hand_cooldown_period\<close> here, since both detector
  classes have an attribute of that name.
\<close>

record HandGestureDetector =
  hand_raised :: bool
  hand_raise_start_time :: "datetime option"
  hand_raise_duration_threshold :: real
  hand_raise_count :: int
  last_hand_raise_time :: "datetime option"
  hand_cooldown_period :: real

definition HandGestureDetector_init :: HandGestureDetector where
  "HandGestureDetector_init =
     \<lparr> hand_raised = False,
       hand_raise_start_time = None,
       hand_raise_duration_threshold = 1.0,
       hand_raise_count = 0,
       last_hand_raise_time = None,
       hand_cooldown_period = 3.0 \<rparr>"

text \<open>
  \<open>detect_hands\<close>: MediaPipe's \<open>multi_hand_landmarks\<close> is the list of detected
  hands (empty when it is \<open>None\<close>); of each hand only the \<open>y\<close> coordinates of
  the wrist and of the middle finger tip are read.
\<close>

record hand_landmarks =
  wrist_y :: real
  middle_finger_tip_y :: real

record hand_data =
  hands_detected :: bool
  hand_raised_now :: bool

definition is_hand_raised :: "hand_landmarks \<Rightarrow> bool" where
  "is_hand_raised lm = (wrist_y lm < 0.4 \<and> middle_finger_tip_y lm < wrist_y lm)"

definition detect_hands :: "hand_landmarks list \<Rightarrow> hand_data" where
  "detect_hands multi_hand_landmarks =
     (case multi_hand_landmarks of
        [] \<Rightarrow> \<lparr> hands_detected = False, hand_raised_now = False \<rparr>
      | lm # _ \<Rightarrow> \<lparr> hands_detected = True, hand_raised_now = is_hand_raised lm \<rparr>)"

text \<open>
  \<open>update_hand_raise_count(hand_raised)\<close>. The clock value that the method reads
  with \<open>datetime.now()\<close> is the argument \<open>current_time\<close>; the result is the
  updated detector and the returned boolean.
\<close>

definition update_hand_raise_count ::
  "HandGestureDetector \<Rightarrow> bool \<Rightarrow> datetime \<Rightarrow> HandGestureDetector \<times> bool" where
  "update_hand_raise_count d raised current_time =
     (if raised then
        (if \<not> hand_raised d then
           (d\<lparr> hand_raised := True, hand_raise_start_time := Some current_time \<rparr>, False)
         else
           (case hand_raise_start_time d of
              None \<Rightarrow> (d, False)
            | Some start \<Rightarrow>
                (if hand_raise_duration_threshold d \<le> total_seconds (current_time - start) then
                   (if (case last_hand_raise_time d of
                          None \<Rightarrow> True
                        | Some lt \<Rightarrow> hand_cooldown_period d \<le> total_seconds (current_time - lt))
                    then
                      (d\<lparr> hand_raise_count := hand_raise_count d + 1,
                          last_hand_raise_time := Some current_time,
                          hand_raise_start_time := None \<rparr>, True)
                    else (d, False))
                 else (d, False))))
      else
        (d\<lparr> hand_raised := False, hand_raise_start_time := None \<rparr>, False))"

definition hand_reset_count :: "HandGestureDetector \<Rightarrow> HandGestureDetector" where
  "hand_reset_count d =
     d\<lparr> hand_raise_count := 0,
        hand_raised := False,
        hand_raise_start_time := None,
        last_hand_raise_time := None \<rparr>"

section \<open>gesture_detection.py: FaceMovementDetector\<close>

text \<open>
  The attributes of \<open>FaceMovementDetector.__init__\<close>; its \<open>looking_away_count\<close>
  and \<open>cooldown_period\<close> are prefixed with \<open>face_\<close>.
\<close>

record FaceMovementDetector =
  face_looking_away_count :: int
  is_looking_away :: bool
  looking_away_start_time :: "datetime option"
  looking_away_threshold :: real
  last_looking_away_time :: "datetime option"
  face_cooldown_period :: real
  yaw_threshold :: real
  pitch_threshold :: real

definition FaceMovementDetector_init :: FaceMovementDetector where
  "FaceMovementDetector_init =
     \<lparr> face_looking_away_count = 0,
       is_looking_away = False,
       looking_away_start_time = None,
       looking_away_threshold = 2.0,
       last_looking_away_time = None,
       face_cooldown_period = 5.0,
       yaw_threshold = 20,
       pitch_threshold = 15 \<rparr>"

text \<open>The dictionary returned by \<open>_calculate_head_pose\<close>, angles in degrees.\<close>

record head_pose =
  pitch :: real
  yaw :: real
  roll :: real

text \<open>
  What \<open>detect_face_movement\<close> gets from its collaborators: whether the face mesh
  found a face (\<open>results.multi_face_landmarks\<close>) and, for a face, what
  \<open>_calculate_head_pose\<close> returned (\<open>None\<close> when \<open>cv2.solvePnP\<close> fails).
\<close>

datatype face_mesh_result = NoFace | Face "head_pose option"

record face_data =
  face_detected :: bool
  fd_head_pose :: "head_pose option"
  looking_away :: bool
  attention_score :: real

definition detect_face_movement :: "FaceMovementDetector \<Rightarrow> face_mesh_result \<Rightarrow> face_data" where
  "detect_face_movement fm results =
     (let face_data0 = \<lparr> face_detected = False, fd_head_pose = None,
                          looking_away = False, attention_score = 0 \<rparr>
      in case results of
           NoFace \<Rightarrow> face_data0
         | Face hp \<Rightarrow>
             (let face_data1 = face_data0\<lparr> face_detected := True, fd_head_pose := hp \<rparr>
              in case hp of
                   None \<Rightarrow> face_data1
                 | Some p \<Rightarrow>
                     (let yaw_score = max 0 (100 - \<bar>yaw p\<bar> * 2);
                          pitch_score = max 0 (100 - \<bar>pitch p\<bar> * 3)
                      in face_data1
                           \<lparr> looking_away := (\<bar>yaw p\<bar> > yaw_threshold fm \<or>
                                              \<bar>pitch p\<bar> > pitch_threshold fm),
                             attention_score := (yaw_score + pitch_score) / 2 \<rparr>)))"

definition update_looking_away_count ::
  "FaceMovementDetector \<Rightarrow> bool \<Rightarrow> datetime \<Rightarrow> FaceMovementDetector \<times> bool" where
  "update_looking_away_count d away current_time =
     (if away then
        (if \<not> is_looking_away d then
           (d\<lparr> is_looking_away := True, looking_away_start_time := Some current_time \<rparr>, False)
         else
           (case looking_away_start_time d of
              None \<Rightarrow> (d, False)
            | Some start \<Rightarrow>
                (if looking_away_threshold d \<le> total_seconds (current_time - start) then
                   (if (case last_looking_away_time d of
                          None \<Rightarrow> True
                        | Some lt \<Rightarrow> face_cooldown_period d \<le> total_seconds (current_time - lt))
                    then
                      (d\<lparr> face_looking_away_count := face_looking_away_count d + 1,
                          last_looking_away_time := Some current_time,
                          looking_away_start_time := None \<rparr>, True)
                    else (d, False))
                 else (d, False))))
      else
        (d\<lparr> is_looking_away := False, looking_away_start_time := None \<rparr>, False))"

definition face_reset_count :: "FaceMovementDetector \<Rightarrow> FaceMovementDetector" where
  "face_reset_count d =
     d\<lparr> face_looking_away_count := 0,
        is_looking_away := False,
        looking_away_start_time := None,
        last_looking_away_time := None \<rparr>"

section \<open>Sequences of detector calls\<close>

text \<open>
  A call is the pair of the raw signal and the clock value read by the call. The two
  functions below give the detector after a sequence of calls and the booleans the calls
  returned, in order.
\<close>

type_synonym detector_call = "bool \<times> datetime"

fun hand_calls_state :: "HandGestureDetector \<Rightarrow> detector_call list \<Rightarrow> HandGestureDetector" where
  "hand_calls_state d [] = d"
| "hand_calls_state d (c # cs) =
     hand_calls_state (fst (update_hand_raise_count d (fst c) (snd c))) cs"

fun hand_calls_returns :: "HandGestureDetector \<Rightarrow> detector_call list \<Rightarrow> bool list" where
  "hand_calls_returns d [] = []"
| "hand_calls_returns d (c # cs) =
     snd (update_hand_raise_count d (fst c) (snd c))
       # hand_calls_returns (fst (update_hand_raise_count d (fst c) (snd c))) cs"

fun face_calls_state :: "FaceMovementDetector \<Rightarrow> detector_call list \<Rightarrow> FaceMovementDetector" where
  "face_calls_state d [] = d"
| "face_calls_state d (c # cs) =
     face_calls_state (fst (update_looking_away_count d (fst c) (snd c))) cs"

fun face_calls_returns :: "FaceMovementDetector \<Rightarrow> detector_call list \<Rightarrow> bool list" where
  "face_calls_returns d [] = []"
| "face_calls_returns d (c # cs) =
     snd (update_looking_away_count d (fst c) (snd c))
       # face_calls_returns (fst (update_looking_away_count d (fst c) (snd c))) cs"

text \<open>
  The current episode of a sequence of calls is its longest suffix of calls whose raw
  signal is true; \<open>episode_start\<close> is the clock value of the first call of that
  episode, if there is one.
\<close>

definition current_episode :: "detector_call list \<Rightarrow> detector_call list" where
  "current_episode cs = rev (takeWhile fst (rev cs))"

definition episode_start :: "detector_call list \<Rightarrow> datetime option" where
  "episode_start cs = (case current_episode cs of [] \<Rightarrow> None | c # _ \<Rightarrow> Some (snd c))"

section \<open>Python dictionaries\<close>

text \<open>
  A \<open>dict\<close> is an association list in insertion order. \<open>dict_set\<close> is the
  assignment \<open>m[k] = v\<close> (a new key goes to the end, an old key keeps its place),
  \<open>dict_modify\<close> the in-place update \<open>m[k] = f(m[k])\<close> of a key,
  \<open>dict_map_values\<close> the loop \<open>for k in m.keys(): m[k] = f(m[k])\<close>.
\<close>

type_synonym ('k, 'v) dict = "('k \<times> 'v) list"

definition dict_keys :: "('k, 'v) dict \<Rightarrow> 'k list" where
  "dict_keys m = map fst m"

definition dict_modify :: "('v \<Rightarrow> 'v) \<Rightarrow> 'k \<Rightarrow> ('k, 'v) dict \<Rightarrow> ('k, 'v) dict" where
  "dict_modify f k m = map (\<lambda>item. if fst item = k then (fst item, f (snd item)) else item) m"

definition dict_set :: "('k, 'v) dict \<Rightarrow> 'k \<Rightarrow> 'v \<Rightarrow> ('k, 'v) dict" where
  "dict_set m k v = (if k \<in> set (dict_keys m) then dict_modify (\<lambda>_. v) k m else m @ [(k, v)])"

definition dict_map_values :: "('v \<Rightarrow> 'v) \<Rightarrow> ('k, 'v) dict \<Rightarrow> ('k, 'v) dict" where
  "dict_map_values f m = map (\<lambda>item. (fst item, f (snd item))) m"

section \<open>behavior_tracking.py: BehaviorTrackingSystem\<close>

text \<open>
  An entry of the list returned by \<open>recognize_faces\<close>: its keys \<open>'name'\<close> and
  \<open>'student_id'\<close> (\<open>None\<close> for an unknown face); \<open>'location'\<close> and
  \<open>'confidence'\<close> are only drawn.
\<close>

record recognized_student =
  rs_name :: string
  student_id :: "string option"

text \<open>The per-student dictionary kept in \<open>active_students\<close>.\<close>

record student_data =
  name :: string
  first_seen :: datetime
  last_seen :: datetime
  hand_raises :: int
  looking_away_count :: int
  attention_scores :: "real list"
  total_frames :: int

text \<open>The arguments of a call of \<open>db.mark_attendance\<close> and of \<open>db.log_behavior\<close>.\<close>

record attendance_call =
  att_student_id :: string
  att_date :: string
  att_time_in :: string

record behavior_log =
  log_student_id :: string
  log_session_date :: string
  log_attention_score :: real
  log_hand_raises :: int
  log_looking_away_count :: int
  log_total_duration :: int

text \<open>
  The state of a \<open>BehaviorTrackingSystem\<close>. The database is represented by the calls
  made to it, in order.
\<close>

record BehaviorTrackingSystem =
  mark_attendance_calls :: "attendance_call list"
  log_behavior_calls :: "behavior_log list"
  hand_detector :: HandGestureDetector
  face_movement_detector :: FaceMovementDetector
  session_start_time :: "datetime option"
  active_students :: "(string, student_data) dict"
  attendance_marked :: "string set"

definition BehaviorTrackingSystem_init :: BehaviorTrackingSystem where
  "BehaviorTrackingSystem_init =
     \<lparr> mark_attendance_calls = [],
       log_behavior_calls = [],
       hand_detector = HandGestureDetector_init,
       face_movement_detector = FaceMovementDetector_init,
       session_start_time = None,
       active_students = [],
       attendance_marked = {} \<rparr>"

text \<open>\<open>current_time.strftime("%H:%M:%S")\<close>, the datetime counted from a midnight.\<close>

definition two_digits :: "int \<Rightarrow> string" where
  "two_digits n = [''0123456789'' ! nat (n div 10), ''0123456789'' ! nat (n mod 10)]"

definition strftime_HMS :: "datetime \<Rightarrow> string" where
  "strftime_HMS t =
     two_digits (t div 3600000000 mod 24) @ '':'' @
     two_digits (t div 60000000 mod 60) @ '':'' @
     two_digits (t div 1000000 mod 60)"

text \<open>
  What one frame brings to \<open>_process_frame\<close>: the clock and the date it reads, the
  results of the recognition, hand and face-mesh collaborators, and the clock values that
  the two detectors read when they are called.
\<close>

record frame_input =
  frame_time :: datetime
  frame_date :: string
  recognized_students :: "recognized_student list"
  multi_hand_landmarks :: "hand_landmarks list"
  hand_update_time :: datetime
  face_results :: face_mesh_result
  face_update_time :: datetime

text \<open>
  The body of the loop \<open>for student in recognized_students\<close>. A \<open>student_id\<close>
  that is \<open>None\<close> or the empty string is falsy and skipped.
\<close>

definition update_student ::
  "datetime \<Rightarrow> string \<Rightarrow> BehaviorTrackingSystem \<Rightarrow> recognized_student \<Rightarrow> BehaviorTrackingSystem" where
  "update_student current_time current_date s student =
     (case student_id student of
        None \<Rightarrow> s
      | Some sid \<Rightarrow>
          if sid = [] then s
          else
            (let s1 = (if sid \<notin> set (dict_keys (active_students s)) then
                         s\<lparr> active_students := dict_set (active_students s) sid
                              \<lparr> name = rs_name student,
                                first_seen = current_time,
                                last_seen = current_time,
                                hand_raises = 0,
                                looking_away_count = 0,
                                attention_scores = [],
                                total_frames = 0 \<rparr> \<rparr>
                       else s);
                 s2 = s1\<lparr> active_students :=
                          dict_modify (\<lambda>d. d\<lparr> last_seen := current_time \<rparr>) sid (active_students s1) \<rparr>;
                 s3 = s2\<lparr> active_students :=
                          dict_modify (\<lambda>d. d\<lparr> total_frames := total_frames d + 1 \<rparr>) sid
                            (active_students s2) \<rparr>
             in if sid \<notin> attendance_marked s3 then
                  s3\<lparr> mark_attendance_calls := mark_attendance_calls s3 @
                         [\<lparr> att_student_id = sid, att_date = current_date,
                            att_time_in = strftime_HMS current_time \<rparr>],
                      attendance_marked := insert sid (attendance_marked s3) \<rparr>
                else s3))"

text \<open>Step 2 of \<open>_process_frame\<close>, hand gesture detection.\<close>

definition process_hands :: "BehaviorTrackingSystem \<Rightarrow> frame_input \<Rightarrow> BehaviorTrackingSystem" where
  "process_hands s f =
     (let hand_data = detect_hands (multi_hand_landmarks f)
      in if hands_detected hand_data then
           (if hand_raised_now hand_data then
              (let r = update_hand_raise_count (hand_detector s) True (hand_update_time f);
                   s1 = s\<lparr> hand_detector := fst r \<rparr>
               in if snd r then
                    s1\<lparr> active_students :=
                          dict_map_values (\<lambda>d. d\<lparr> hand_raises := hand_raises d + 1 \<rparr>)
                            (active_students s1) \<rparr>
                  else s1)
            else
              s\<lparr> hand_detector :=
                   fst (update_hand_raise_count (hand_detector s) False (hand_update_time f)) \<rparr>)
         else s)"

text \<open>Step 3 of \<open>_process_frame\<close>, face movement detection.\<close>

definition process_face :: "BehaviorTrackingSystem \<Rightarrow> frame_input \<Rightarrow> BehaviorTrackingSystem" where
  "process_face s f =
     (let face_data = detect_face_movement (face_movement_detector s) (face_results f)
      in if face_detected face_data then
           (let s1 = s\<lparr> active_students :=
                         dict_map_values
                           (\<lambda>d. d\<lparr> attention_scores :=
                                      attention_scores d @ [attention_score face_data] \<rparr>)
                           (active_students s) \<rparr>
            in if looking_away face_data then
                 (let r = update_looking_away_count (face_movement_detector s1) True
                            (face_update_time f);
                      s2 = s1\<lparr> face_movement_detector := fst r \<rparr>
                  in if snd r then
                       s2\<lparr> active_students :=
                             dict_map_values
                               (\<lambda>d. d\<lparr> looking_away_count := looking_away_count d + 1 \<rparr>)
                               (active_students s2) \<rparr>
                     else s2)
               else
                 s1\<lparr> face_movement_detector :=
                       fst (update_looking_away_count (face_movement_detector s1) False
                              (face_update_time f)) \<rparr>)
         else s)"

text \<open>\<open>_process_frame\<close>; the drawing on the display frame is left out.\<close>

definition process_frame :: "BehaviorTrackingSystem \<Rightarrow> frame_input \<Rightarrow> BehaviorTrackingSystem" where
  "process_frame s f =
     process_face
       (process_hands
          (foldl (update_student (frame_time f) (frame_date f)) s (recognized_students f)) f) f"

definition reset_statistics :: "BehaviorTrackingSystem \<Rightarrow> BehaviorTrackingSystem" where
  "reset_statistics s =
     s\<lparr> hand_detector := hand_reset_count (hand_detector s),
        face_movement_detector := face_reset_count (face_movement_detector s),
        active_students :=
          dict_map_values
            (\<lambda>d. d\<lparr> hand_raises := 0, looking_away_count := 0, attention_scores := [] \<rparr>)
            (active_students s) \<rparr>"

text \<open>
  \<open>np.mean\<close> of a nonempty list, and \<open>int()\<close> of a float, which truncates
  towards zero.
\<close>

definition np_mean :: "real list \<Rightarrow> real" where
  "np_mean xs = sum_list xs / real (length xs)"

definition py_int :: "real \<Rightarrow> int" where
  "py_int x = (if 0 \<le> x then \<lfloor>x\<rfloor> else \<lceil>x\<rceil>)"

text \<open>
  \<open>_save_session_report\<close>: the body of its loop over \<open>active_students.items()\<close>
  builds one \<open>log_behavior\<close> call; \<open>session_date\<close> is the date the method reads.
\<close>

definition student_report :: "string \<Rightarrow> string \<times> student_data \<Rightarrow> behavior_log" where
  "student_report session_date item =
     (let data = snd item;
          avg_attention = (if attention_scores data \<noteq> [] then np_mean (attention_scores data) else 0);
          student_duration = total_seconds (last_seen data - first_seen data)
      in \<lparr> log_student_id = fst item,
           log_session_date = session_date,
           log_attention_score = avg_attention,
           log_hand_raises = hand_raises data,
           log_looking_away_count = looking_away_count data,
           log_total_duration = py_int student_duration \<rparr>)"

definition save_session_report :: "BehaviorTrackingSystem \<Rightarrow> string \<Rightarrow> BehaviorTrackingSystem" where
  "save_session_report s session_date =
     (case session_start_time s of
        None \<Rightarrow> s
      | Some _ \<Rightarrow>
          s\<lparr> log_behavior_calls :=
               log_behavior_calls s @ map (student_report session_date) (active_students s) \<rparr>)"

text \<open>
  \<open>start_monitoring_session\<close>: the session start time is set, then every turn of the
  loop processes a frame or serves a key (\<open>r\<close> resets the statistics, \<open>s\<close> saves a
  report); when the loop ends the report is saved.
\<close>

datatype loop_event = Frame frame_input | KeyReset | KeySave string

fun loop_step :: "BehaviorTrackingSystem \<Rightarrow> loop_event \<Rightarrow> BehaviorTrackingSystem" where
  "loop_step s (Frame f) = process_frame s f"
| "loop_step s KeyReset = reset_statistics s"
| "loop_step s (KeySave session_date) = save_session_report s session_date"

definition monitoring_loop ::
  "BehaviorTrackingSystem \<Rightarrow> datetime \<Rightarrow> loop_event list \<Rightarrow> BehaviorTrackingSystem" where
  "monitoring_loop s now events = foldl loop_step (s\<lparr> session_start_time := Some now \<rparr>) events"

definition start_monitoring_session ::
  "BehaviorTrackingSystem \<Rightarrow> datetime \<Rightarrow> loop_event list \<Rightarrow> string \<Rightarrow> BehaviorTrackingSystem" where
  "start_monitoring_session s now events session_date =
     save_session_report (monitoring_loop s now events) session_date"

fun frame_times :: "loop_event list \<Rightarrow> datetime list" where
  "frame_times [] = []"
| "frame_times (Frame f # es) = frame_time f # frame_times es"
| "frame_times (e # es) = frame_times es"

section \<open>Invariants of a session\<close>

text \<open>
  Every student id that \<open>mark_attendance\<close> was called for is in
  \<open>attendance_marked\<close>, and no id was passed twice.
\<close>

definition attendance_consistent :: "BehaviorTrackingSystem \<Rightarrow> bool" where
  "attendance_consistent s =
     (set (map att_student_id (mark_attendance_calls s)) \<subseteq> attendance_marked s \<and>
      distinct (map att_student_id (mark_attendance_calls s)))"

text \<open>
  Every record of \<open>active_students\<close> was first seen no later than it was last
  seen, which was no later than \<open>T\<close>.
\<close>

definition seen_ordered :: "datetime \<Rightarrow> BehaviorTrackingSystem \<Rightarrow> bool" where
  "seen_ordered T s =
     list_all (\<lambda>item. first_seen (snd item) \<le> last_seen (snd item) \<and> last_seen (snd item) \<le> T)
       (active_students s)"

section \<open>Example inputs\<close>

text \<open>
  A frame at time \<open>t\<close> in which the collaborators find nobody, no hand and no face;
  the examples below change the fields they need. A raised and a lowered hand, and
  a head pose with a given yaw.
\<close>

definition empty_frame :: "datetime \<Rightarrow> frame_input" where
  "empty_frame t =
     \<lparr> frame_time = t,
       frame_date = ''2024-03-01'',
       recognized_students = [],
       multi_hand_landmarks = [],
       hand_update_time = t,
       face_results = NoFace,
       face_update_time = t \<rparr>"

definition raised_hand :: hand_landmarks where
  "raised_hand = \<lparr> wrist_y = 0.3, middle_finger_tip_y = 0.2 \<rparr>"

definition lowered_hand :: hand_landmarks where
  "lowered_hand = \<lparr> wrist_y = 0.8, middle_finger_tip_y = 0.7 \<rparr>"

definition pose_with_yaw :: "real \<Rightarrow> head_pose" where
  "pose_with_yaw y = \<lparr> pitch = 0, yaw = y, roll = 0 \<rparr>"

definition known_student :: "string \<Rightarrow> recognized_student" where
  "known_student sid = \<lparr> rs_name = sid, student_id = Some sid \<rparr>"

section \<open>Properties of the debouncing detectors\<close>

lemma current_episode_snoc:
  "current_episode (cs @ [c]) = (if fst c then current_episode cs @ [c] else [])"
  by (simp add: current_episode_def)

lemma episode_start_snoc:
  "episode_start (cs @ [c]) =
     (if fst c then (case episode_start cs of None \<Rightarrow> Some (snd c) | Some st \<Rightarrow> Some st) else None)"
  by (simp add: episode_start_def current_episode_snoc split: list.splits)

lemma episode_start_None_iff: "episode_start cs = None \<longleftrightarrow> (cs = [] \<or> \<not> fst (last cs))"
proof (induction cs rule: rev_induct)
  case Nil
  show ?case by (simp add: episode_start_def current_episode_def)
next
  case (snoc c cs)
  show ?case by (simp add: episode_start_snoc split: option.splits)
qed

lemma total_seconds_mono: "a \<le> b \<Longrightarrow> total_seconds a \<le> total_seconds b"
  by (simp add: total_seconds_def divide_right_mono)


lemma count_True_le1_nth:
  "count_list bs True \<le> 1 \<Longrightarrow> i < j \<Longrightarrow> j < length bs \<Longrightarrow> bs ! i \<Longrightarrow> \<not> bs ! j"
proof (induction bs arbitrary: i j)
  case Nil
  then show ?case by simp
next
  case (Cons b bs)
  obtain k where j: "j = Suc k" using Cons.prems(2) by (cases j) simp_all
  have k: "k < length bs" using Cons.prems(3) j by simp
  show ?case
  proof (cases i)
    case 0
    with Cons.prems have "count_list bs True = 0" by simp
    then have "True \<notin> set bs" by (simp add: count_list_0_iff)
    moreover have "bs ! k \<in> set bs" using k by (rule nth_mem)
    ultimately have "\<not> bs ! k" by auto
    then show ?thesis using j by simp
  next
    case (Suc i')
    have b: "count_list bs True \<le> 1" using Cons.prems(1) by (simp split: if_splits)
    have "\<not> bs ! k" using Cons.IH[OF b, of i' k] Cons.prems Suc j k by simp
    then show ?thesis using j by simp
  qed
qed

lemma hand_calls_state_snoc:
  "hand_calls_state d (cs @ [c]) =
     fst (update_hand_raise_count (hand_calls_state d cs) (fst c) (snd c))"
  by (induction cs arbitrary: d) simp_all

lemma hand_calls_returns_snoc:
  "hand_calls_returns d (cs @ [c]) =
     hand_calls_returns d cs @ [snd (update_hand_raise_count (hand_calls_state d cs) (fst c) (snd c))]"
  by (induction cs arbitrary: d) simp_all

lemma hand_update_params:
  "hand_raise_duration_threshold (fst (update_hand_raise_count d s t)) = hand_raise_duration_threshold d"
  "hand_cooldown_period (fst (update_hand_raise_count d s t)) = hand_cooldown_period d"
  by (simp_all add: update_hand_raise_count_def split: option.splits)

lemma hand_calls_state_threshold:
  "hand_raise_duration_threshold (hand_calls_state d cs) = hand_raise_duration_threshold d"
  by (induction cs arbitrary: d) (simp_all add: hand_update_params)

lemma hand_calls_state_cooldown:
  "hand_cooldown_period (hand_calls_state d cs) = hand_cooldown_period d"
  by (induction cs arbitrary: d) (simp_all add: hand_update_params)

lemma hand_episode_invariant:
  assumes "\<not> hand_raised d0" "hand_raise_start_time d0 = None"
  shows "(hand_raised (hand_calls_state d0 cs) \<longleftrightarrow> episode_start cs \<noteq> None) \<and>
         (\<forall>st. hand_raise_start_time (hand_calls_state d0 cs) = Some st \<longrightarrow> episode_start cs = Some st)"
proof (induction cs rule: rev_induct)
  case Nil
  show ?case using assms by (simp add: episode_start_def current_episode_def)
next
  case (snoc c cs)
  then show ?case
    by (auto simp: hand_calls_state_snoc episode_start_snoc update_hand_raise_count_def
             split: option.splits if_splits)
qed

lemma hand_confirm_step:
  "snd (update_hand_raise_count d s t) \<Longrightarrow>
     s \<and> hand_raised d \<and>
     (\<exists>st. hand_raise_start_time d = Some st \<and>
           hand_raise_duration_threshold d \<le> total_seconds (t - st))"
  by (auto simp: update_hand_raise_count_def split: option.splits if_splits)


lemma hand_update_last:
  "last_hand_raise_time (fst (update_hand_raise_count d s t)) =
     (if snd (update_hand_raise_count d s t) then Some t else last_hand_raise_time d)"
  by (simp add: update_hand_raise_count_def split: option.splits)

lemma hand_confirm_cooldown:
  "snd (update_hand_raise_count d s t) \<Longrightarrow> last_hand_raise_time d = Some lt \<Longrightarrow>
     hand_cooldown_period d \<le> total_seconds (t - lt)"
  by (auto simp: update_hand_raise_count_def split: option.splits if_splits)

lemma hand_calls_returns_length [simp]: "length (hand_calls_returns d cs) = length cs"
  by (induction cs arbitrary: d) simp_all

lemma hand_cooldown_after_last:
  assumes "last_hand_raise_time d = Some lt" "sorted (map snd cs)" "\<forall>c\<in>set cs. lt \<le> snd c"
      and "j < length cs" "hand_calls_returns d cs ! j"
  shows "hand_cooldown_period d \<le> total_seconds (snd (cs ! j) - lt)"
  using assms
proof (induction cs arbitrary: d lt j)
  case Nil
  then show ?case by simp
next
  case (Cons c cs)
  let ?d' = "fst (update_hand_raise_count d (fst c) (snd c))"
  show ?case
  proof (cases j)
    case 0
    with Cons.prems show ?thesis by (simp add: hand_confirm_cooldown)
  next
    case (Suc k)
    obtain lt' where lt': "last_hand_raise_time ?d' = Some lt'" "lt \<le> lt'" "lt' \<le> snd c"
      using Cons.prems(1,3) by (cases "snd (update_hand_raise_count d (fst c) (snd c))")
        (simp_all add: hand_update_last)
    have le: "\<forall>x\<in>set cs. lt' \<le> snd x"
      using Cons.prems(2) lt'(3) by auto
    have "hand_cooldown_period ?d' \<le> total_seconds (snd (cs ! k) - lt')"
      using Cons.IH[OF lt'(1) _ le, of k] Cons.prems Suc by simp
    moreover have "total_seconds (snd (cs ! k) - lt') \<le> total_seconds (snd (cs ! k) - lt)"
      using lt'(2) by (intro total_seconds_mono) simp
    ultimately show ?thesis using Suc by (simp add: hand_update_params)
  qed
qed

lemma hand_confirmations_spaced:
  assumes "sorted (map snd cs)" "i < j" "j < length cs"
      and "hand_calls_returns d cs ! i" "hand_calls_returns d cs ! j"
  shows "hand_cooldown_period d \<le> total_seconds (snd (cs ! j) - snd (cs ! i))"
  using assms
proof (induction cs arbitrary: d i j)
  case Nil
  then show ?case by simp
next
  case (Cons c cs)
  let ?d' = "fst (update_hand_raise_count d (fst c) (snd c))"
  obtain k where j: "j = Suc k" using Cons.prems(2) by (cases j) simp_all
  show ?case
  proof (cases i)
    case 0
    have l: "last_hand_raise_time ?d' = Some (snd c)"
      using Cons.prems(4) 0 by (simp add: hand_update_last)
    have le: "\<forall>x\<in>set cs. snd c \<le> snd x" using Cons.prems(1) by auto
    have "hand_cooldown_period ?d' \<le> total_seconds (snd (cs ! k) - snd c)"
      using hand_cooldown_after_last[OF l _ le, of k] Cons.prems j by simp
    then show ?thesis using 0 j by (simp add: hand_update_params)
  next
    case (Suc i')
    have "hand_cooldown_period ?d' \<le> total_seconds (snd (cs ! k) - snd (cs ! i'))"
      using Cons.IH[of i' k ?d'] Cons.prems Suc j by simp
    then show ?thesis using Suc j by (simp add: hand_update_params)
  qed
qed

lemma hand_update_quiet:
  "hand_raised d \<Longrightarrow> hand_raise_start_time d = None \<Longrightarrow>
     update_hand_raise_count d True t = (d, False)"
  by (simp add: update_hand_raise_count_def)

lemma hand_quiet_after_confirm:
  "hand_raised d \<Longrightarrow> hand_raise_start_time d = None \<Longrightarrow> list_all fst cs \<Longrightarrow>
     count_list (hand_calls_returns d cs) True = 0"
proof (induction cs)
  case Nil
  show ?case by simp
next
  case (Cons c cs)
  obtain t where c: "c = (True, t)" using Cons.prems(3) by (cases c) simp
  have "update_hand_raise_count d True t = (d, False)"
    using Cons.prems(1,2) by (rule hand_update_quiet)
  then show ?case using Cons c by simp
qed

lemma hand_update_confirmed_state:
  "snd (update_hand_raise_count d s t) \<Longrightarrow>
     hand_raised (fst (update_hand_raise_count d s t)) \<and>
     hand_raise_start_time (fst (update_hand_raise_count d s t)) = None"
  by (auto simp: update_hand_raise_count_def split: option.splits if_splits)

lemma hand_once_per_run:
  "list_all fst cs \<Longrightarrow> count_list (hand_calls_returns d cs) True \<le> 1"
proof (induction cs arbitrary: d)
  case Nil
  then show ?case by simp
next
  case (Cons c cs)
  show ?case
  proof (cases "snd (update_hand_raise_count d (fst c) (snd c))")
    case True
    then show ?thesis
      using Cons.prems hand_update_confirmed_state[OF True] by (simp add: hand_quiet_after_confirm)
  next
    case False
    then show ?thesis using Cons by simp
  qed
qed

lemma hand_calls_returns_append:
  "hand_calls_returns d (cs @ cs') =
     hand_calls_returns d cs @ hand_calls_returns (hand_calls_state d cs) cs'"
  by (induction cs arbitrary: d) simp_all

lemma face_calls_state_snoc:
  "face_calls_state d (cs @ [c]) =
     fst (update_looking_away_count (face_calls_state d cs) (fst c) (snd c))"
  by (induction cs arbitrary: d) simp_all

lemma face_calls_returns_snoc:
  "face_calls_returns d (cs @ [c]) =
     face_calls_returns d cs @ [snd (update_looking_away_count (face_calls_state d cs) (fst c) (snd c))]"
  by (induction cs arbitrary: d) simp_all

lemma face_update_params:
  "looking_away_threshold (fst (update_looking_away_count d s t)) = looking_away_threshold d"
  "face_cooldown_period (fst (update_looking_away_count d s t)) = face_cooldown_period d"
  by (simp_all add: update_looking_away_count_def split: option.splits)

lemma face_calls_state_threshold:
  "looking_away_threshold (face_calls_state d cs) = looking_away_threshold d"
  by (induction cs arbitrary: d) (simp_all add: face_update_params)

lemma face_calls_state_cooldown:
  "face_cooldown_period (face_calls_state d cs) = face_cooldown_period d"
  by (induction cs arbitrary: d) (simp_all add: face_update_params)

lemma face_episode_invariant:
  assumes "\<not> is_looking_away d0" "looking_away_start_time d0 = None"
  shows "(is_looking_away (face_calls_state d0 cs) \<longleftrightarrow> episode_start cs \<noteq> None) \<and>
         (\<forall>st. looking_away_start_time (face_calls_state d0 cs) = Some st \<longrightarrow> episode_start cs = Some st)"
proof (induction cs rule: rev_induct)
  case Nil
  show ?case using assms by (simp add: episode_start_def current_episode_def)
next
  case (snoc c cs)
  then show ?case
    by (auto simp: face_calls_state_snoc episode_start_snoc update_looking_away_count_def
             split: option.splits if_splits)
qed

lemma face_confirm_step:
  "snd (update_looking_away_count d s t) \<Longrightarrow>
     s \<and> is_looking_away d \<and>
     (\<exists>st. looking_away_start_time d = Some st \<and>
           looking_away_threshold d \<le> total_seconds (t - st))"
  by (auto simp: update_looking_away_count_def split: option.splits if_splits)


lemma face_update_last:
  "last_looking_away_time (fst (update_looking_away_count d s t)) =
     (if snd (update_looking_away_count d s t) then Some t else last_looking_away_time d)"
  by (simp add: update_looking_away_count_def split: option.splits)

lemma face_confirm_cooldown:
  "snd (update_looking_away_count d s t) \<Longrightarrow> last_looking_away_time d = Some lt \<Longrightarrow>
     face_cooldown_period d \<le> total_seconds (t - lt)"
  by (auto simp: update_looking_away_count_def split: option.splits if_splits)

lemma face_calls_returns_length [simp]: "length (face_calls_returns d cs) = length cs"
  by (induction cs arbitrary: d) simp_all

lemma face_cooldown_after_last:
  assumes "last_looking_away_time d = Some lt" "sorted (map snd cs)" "\<forall>c\<in>set cs. lt \<le> snd c"
      and "j < length cs" "face_calls_returns d cs ! j"
  shows "face_cooldown_period d \<le> total_seconds (snd (cs ! j) - lt)"
  using assms
proof (induction cs arbitrary: d lt j)
  case Nil
  then show ?case by simp
next
  case (Cons c cs)
  let ?d' = "fst (update_looking_away_count d (fst c) (snd c))"
  show ?case
  proof (cases j)
    case 0
    with Cons.prems show ?thesis by (simp add: face_confirm_cooldown)
  next
    case (Suc k)
    obtain lt' where lt': "last_looking_away_time ?d' = Some lt'" "lt \<le> lt'" "lt' \<le> snd c"
      using Cons.prems(1,3) by (cases "snd (update_looking_away_count d (fst c) (snd c))")
        (simp_all add: face_update_last)
    have le: "\<forall>x\<in>set cs. lt' \<le> snd x"
      using Cons.prems(2) lt'(3) by auto
    have "face_cooldown_period ?d' \<le> total_seconds (snd (cs ! k) - lt')"
      using Cons.IH[OF lt'(1) _ le, of k] Cons.prems Suc by simp
    moreover have "total_seconds (snd (cs ! k) - lt') \<le> total_seconds (snd (cs ! k) - lt)"
      using lt'(2) by (intro total_seconds_mono) simp
    ultimately show ?thesis using Suc by (simp add: face_update_params)
  qed
qed

lemma face_confirmations_spaced:
  assumes "sorted (map snd cs)" "i < j" "j < length cs"
      and "face_calls_returns d cs ! i" "face_calls_returns d cs ! j"
  shows "face_cooldown_period d \<le> total_seconds (snd (cs ! j) - snd (cs ! i))"
  using assms
proof (induction cs arbitrary: d i j)
  case Nil
  then show ?case by simp
next
  case (Cons c cs)
  let ?d' = "fst (update_looking_away_count d (fst c) (snd c))"
  obtain k where j: "j = Suc k" using Cons.prems(2) by (cases j) simp_all
  show ?case
  proof (cases i)
    case 0
    have l: "last_looking_away_time ?d' = Some (snd c)"
      using Cons.prems(4) 0 by (simp add: face_update_last)
    have le: "\<forall>x\<in>set cs. snd c \<le> snd x" using Cons.prems(1) by auto
    have "face_cooldown_period ?d' \<le> total_seconds (snd (cs ! k) - snd c)"
      using face_cooldown_after_last[OF l _ le, of k] Cons.prems j by simp
    then show ?thesis using 0 j by (simp add: face_update_params)
  next
    case (Suc i')
    have "face_cooldown_period ?d' \<le> total_seconds (snd (cs ! k) - snd (cs ! i'))"
      using Cons.IH[of i' k ?d'] Cons.prems Suc j by simp
    then show ?thesis using Suc j by (simp add: face_update_params)
  qed
qed

lemma face_update_quiet:
  "is_looking_away d \<Longrightarrow> looking_away_start_time d = None \<Longrightarrow>
     update_looking_away_count d True t = (d, False)"
  by (simp add: update_looking_away_count_def)

lemma face_quiet_after_confirm:
  "is_looking_away d \<Longrightarrow> looking_away_start_time d = None \<Longrightarrow> list_all fst cs \<Longrightarrow>
     count_list (face_calls_returns d cs) True = 0"
proof (induction cs)
  case Nil
  show ?case by simp
next
  case (Cons c cs)
  obtain t where c: "c = (True, t)" using Cons.prems(3) by (cases c) simp
  have "update_looking_away_count d True t = (d, False)"
    using Cons.prems(1,2) by (rule face_update_quiet)
  then show ?case using Cons c by simp
qed

lemma face_update_confirmed_state:
  "snd (update_looking_away_count d s t) \<Longrightarrow>
     is_looking_away (fst (update_looking_away_count d s t)) \<and>
     looking_away_start_time (fst (update_looking_away_count d s t)) = None"
  by (auto simp: update_looking_away_count_def split: option.splits if_splits)

lemma face_once_per_run:
  "list_all fst cs \<Longrightarrow> count_list (face_calls_returns d cs) True \<le> 1"
proof (induction cs arbitrary: d)
  case Nil
  then show ?case by simp
next
  case (Cons c cs)
  show ?case
  proof (cases "snd (update_looking_away_count d (fst c) (snd c))")
    case True
    then show ?thesis
      using Cons.prems face_update_confirmed_state[OF True] by (simp add: face_quiet_after_confirm)
  next
    case False
    then show ?thesis using Cons by simp
  qed
qed

lemma face_calls_returns_append:
  "face_calls_returns d (cs @ cs') =
     face_calls_returns d cs @ face_calls_returns (face_calls_state d cs) cs'"
  by (induction cs arbitrary: d) simp_all

lemma hand_episode_returns:
  "take (length run) (drop (length pre) (hand_calls_returns h (pre @ run @ post))) =
     hand_calls_returns (hand_calls_state h pre) run"
  by (simp add: hand_calls_returns_append)

lemma face_episode_returns:
  "take (length run) (drop (length pre) (face_calls_returns f (pre @ run @ post))) =
     face_calls_returns (face_calls_state f pre) run"
  by (simp add: face_calls_returns_append)

lemma hand_returns_nth_run:
  "k < length run \<Longrightarrow>
     hand_calls_returns h (pre @ run @ post) ! (length pre + k) =
     hand_calls_returns (hand_calls_state h pre) run ! k"
  by (simp add: hand_calls_returns_append nth_append)

lemma face_returns_nth_run:
  "k < length run \<Longrightarrow>
     face_calls_returns f (pre @ run @ post) ! (length pre + k) =
     face_calls_returns (face_calls_state f pre) run ! k"
  by (simp add: face_calls_returns_append nth_append)

lemma hand_confirm_history:
  assumes "\<not> hand_raised h0" "hand_raise_start_time h0 = None"
      and "last (hand_calls_returns h0 (cs @ [(s, t)]))"
  shows "s \<and> (case episode_start (cs @ [(s, t)]) of
                None \<Rightarrow> False
              | Some st \<Rightarrow> hand_raise_duration_threshold h0 \<le> total_seconds (t - st))"
proof -
  let ?d = "hand_calls_state h0 cs"
  have "snd (update_hand_raise_count ?d s t)"
    using assms(3) by (simp add: hand_calls_returns_snoc)
  then obtain st where s: "s" and st: "hand_raise_start_time ?d = Some st"
    and le: "hand_raise_duration_threshold ?d \<le> total_seconds (t - st)"
    using hand_confirm_step by blast
  have "episode_start cs = Some st"
    using hand_episode_invariant[OF assms(1,2), of cs] st by blast
  then show ?thesis
    using s le by (simp add: episode_start_snoc hand_calls_state_threshold)
qed

lemma face_confirm_history:
  assumes "\<not> is_looking_away f0" "looking_away_start_time f0 = None"
      and "last (face_calls_returns f0 (cs @ [(s, t)]))"
  shows "s \<and> (case episode_start (cs @ [(s, t)]) of
                None \<Rightarrow> False
              | Some st \<Rightarrow> looking_away_threshold f0 \<le> total_seconds (t - st))"
proof -
  let ?d = "face_calls_state f0 cs"
  have "snd (update_looking_away_count ?d s t)"
    using assms(3) by (simp add: face_calls_returns_snoc)
  then obtain st where s: "s" and st: "looking_away_start_time ?d = Some st"
    and le: "looking_away_threshold ?d \<le> total_seconds (t - st)"
    using face_confirm_step by blast
  have "episode_start cs = Some st"
    using face_episode_invariant[OF assms(1,2), of cs] st by blast
  then show ?thesis
    using s le by (simp add: episode_start_snoc face_calls_state_threshold)
qed

text \<open>
  C1. Take a detector that is not in an episode (as after \<open>__init__\<close> or
  \<open>reset_count\<close>), any sequence \<open>cs\<close> of update calls and one more call with
  signal \<open>s\<close> at time \<open>t\<close>. If that call returns a confirmation, then \<open>s\<close> is true,
  an episode is in progress, and \<open>t\<close> minus the time of the episode's first call is at
  least the sustain threshold; a call in an episode whose elapsed time is below the
  threshold returns no confirmation. This holds for the hand-raise detector and for the
  looking-away detector.
\<close>

theorem confirmation_requires_sustained_episode:
  assumes "\<not> hand_raised h0" "hand_raise_start_time h0 = None"
      and "\<not> is_looking_away f0" "looking_away_start_time f0 = None"
  shows "(last (hand_calls_returns h0 (cs @ [(s, t)])) \<longrightarrow>
            s \<and> (case episode_start (cs @ [(s, t)]) of
                   None \<Rightarrow> False
                 | Some st \<Rightarrow> hand_raise_duration_threshold h0 \<le> total_seconds (t - st)))
       \<and> ((case episode_start (cs @ [(s, t)]) of
              None \<Rightarrow> False
            | Some st \<Rightarrow> total_seconds (t - st) < hand_raise_duration_threshold h0) \<longrightarrow>
            \<not> last (hand_calls_returns h0 (cs @ [(s, t)])))
       \<and> (last (face_calls_returns f0 (cs @ [(s, t)])) \<longrightarrow>
            s \<and> (case episode_start (cs @ [(s, t)]) of
                   None \<Rightarrow> False
                 | Some st \<Rightarrow> looking_away_threshold f0 \<le> total_seconds (t - st)))
       \<and> ((case episode_start (cs @ [(s, t)]) of
              None \<Rightarrow> False
            | Some st \<Rightarrow> total_seconds (t - st) < looking_away_threshold f0) \<longrightarrow>
            \<not> last (face_calls_returns f0 (cs @ [(s, t)])))"
proof -
  note h = hand_confirm_history[OF assms(1,2), of cs s t]
  note f = face_confirm_history[OF assms(3,4), of cs s t]
  have 1: "last (hand_calls_returns h0 (cs @ [(s, t)])) \<longrightarrow>
            s \<and> (case episode_start (cs @ [(s, t)]) of
                   None \<Rightarrow> False
                 | Some st \<Rightarrow> hand_raise_duration_threshold h0 \<le> total_seconds (t - st))"
    using h by blast
  have 2: "(case episode_start (cs @ [(s, t)]) of
              None \<Rightarrow> False
            | Some st \<Rightarrow> total_seconds (t - st) < hand_raise_duration_threshold h0) \<longrightarrow>
            \<not> last (hand_calls_returns h0 (cs @ [(s, t)]))"
    using h by (auto split: option.splits)
  have 3: "last (face_calls_returns f0 (cs @ [(s, t)])) \<longrightarrow>
            s \<and> (case episode_start (cs @ [(s, t)]) of
                   None \<Rightarrow> False
                 | Some st \<Rightarrow> looking_away_threshold f0 \<le> total_seconds (t - st))"
    using f by blast
  have 4: "(case episode_start (cs @ [(s, t)]) of
              None \<Rightarrow> False
            | Some st \<Rightarrow> total_seconds (t - st) < looking_away_threshold f0) \<longrightarrow>
            \<not> last (face_calls_returns f0 (cs @ [(s, t)]))"
    using f by (auto split: option.splits)
  show ?thesis using 1 2 3 4 by blast
qed

theorem confirmation_requires_sustained_episode_witness:
  "\<not> hand_raised HandGestureDetector_init
   \<and> hand_raise_start_time HandGestureDetector_init = None
   \<and> \<not> is_looking_away FaceMovementDetector_init
   \<and> looking_away_start_time FaceMovementDetector_init = None
   \<and> last (hand_calls_returns HandGestureDetector_init ([(True, 0)] @ [(True, 2500000)]))
   \<and> last (face_calls_returns FaceMovementDetector_init ([(True, 0)] @ [(True, 2500000)]))
   \<and> episode_start ([(True, 0)] @ [(True, 2500000)]) = Some (0::datetime)
   \<and> hand_raise_duration_threshold HandGestureDetector_init \<le> total_seconds (2500000 - 0)
   \<and> looking_away_threshold FaceMovementDetector_init \<le> total_seconds (2500000 - 0)
   \<and> \<not> last (hand_calls_returns HandGestureDetector_init ([(True, 0)] @ [(True, 900000)]))
   \<and> \<not> last (face_calls_returns FaceMovementDetector_init ([(True, 0)] @ [(True, 900000)]))"
  using confirmation_requires_sustained_episode
          [of HandGestureDetector_init FaceMovementDetector_init "[(True, 0)]" True 2500000]
        confirmation_requires_sustained_episode
          [of HandGestureDetector_init FaceMovementDetector_init "[(True, 0)]" True 900000]
  by (simp add: HandGestureDetector_init_def FaceMovementDetector_init_def
        update_hand_raise_count_def update_looking_away_count_def total_seconds_def
        episode_start_def current_episode_def)

text \<open>
  C2. In a sequence of update calls with nondecreasing timestamps on one detector, two
  calls that both return a confirmation are at least \<open>cooldown_period\<close> apart, wherever
  the false signals between them fall. The detector may be in any state at the start.
\<close>

theorem confirmations_separated_by_cooldown:
  assumes "sorted (map snd cs)" "i < j" "j < length cs"
  shows "(hand_calls_returns h cs ! i \<and> hand_calls_returns h cs ! j \<longrightarrow>
            hand_cooldown_period h \<le> total_seconds (snd (cs ! j) - snd (cs ! i)))
       \<and> (face_calls_returns f cs ! i \<and> face_calls_returns f cs ! j \<longrightarrow>
            face_cooldown_period f \<le> total_seconds (snd (cs ! j) - snd (cs ! i)))"
  using hand_confirmations_spaced[OF assms, of h] face_confirmations_spaced[OF assms, of f]
  by blast

theorem confirmations_separated_by_cooldown_witness:
  "sorted (map snd [(True, 0::datetime), (True, 2000000), (False, 2500000), (True, 3000000),
                    (True, 7000000)])
   \<and> hand_calls_returns HandGestureDetector_init
        [(True, 0), (True, 2000000), (False, 2500000), (True, 3000000), (True, 7000000)]
      = [False, True, False, False, True]
   \<and> face_calls_returns FaceMovementDetector_init
        [(True, 0), (True, 2000000), (False, 2500000), (True, 3000000), (True, 7000000)]
      = [False, True, False, False, True]
   \<and> hand_cooldown_period HandGestureDetector_init \<le> total_seconds (7000000 - 2000000)
   \<and> face_cooldown_period FaceMovementDetector_init \<le> total_seconds (7000000 - 2000000)"
  using confirmations_separated_by_cooldown
          [of "[(True, 0), (True, 2000000), (False, 2500000), (True, 3000000), (True, 7000000)]"
              1 4 HandGestureDetector_init FaceMovementDetector_init]
  by (simp add: HandGestureDetector_init_def FaceMovementDetector_init_def
        update_hand_raise_count_def update_looking_away_count_def total_seconds_def)

text \<open>
  C3. Let \<open>run\<close> be consecutive update calls whose raw signal is true, anywhere in a
  sequence of calls (after the calls \<open>pre\<close>, before the calls \<open>post\<close>); a maximal
  such run is an episode. At most one call of the run returns a confirmation, and after a
  call of the run that confirms, no later call of the run confirms.
\<close>

theorem at_most_one_confirmation_per_episode:
  assumes "list_all fst run"
  shows "count_list (take (length run) (drop (length pre)
            (hand_calls_returns h (pre @ run @ post)))) True \<le> 1
       \<and> (i < j \<and> j < length run \<and> hand_calls_returns h (pre @ run @ post) ! (length pre + i) \<longrightarrow>
            \<not> hand_calls_returns h (pre @ run @ post) ! (length pre + j))
       \<and> count_list (take (length run) (drop (length pre)
            (face_calls_returns f (pre @ run @ post)))) True \<le> 1
       \<and> (i < j \<and> j < length run \<and> face_calls_returns f (pre @ run @ post) ! (length pre + i) \<longrightarrow>
            \<not> face_calls_returns f (pre @ run @ post) ! (length pre + j))"
proof -
  have h1: "count_list (hand_calls_returns (hand_calls_state h pre) run) True \<le> 1"
    using assms by (rule hand_once_per_run)
  have f1: "count_list (face_calls_returns (face_calls_state f pre) run) True \<le> 1"
    using assms by (rule face_once_per_run)
  have h2: "\<not> hand_calls_returns h (pre @ run @ post) ! (length pre + j)"
    if "i < j" "j < length run" "hand_calls_returns h (pre @ run @ post) ! (length pre + i)"
    using count_True_le1_nth[OF h1, of i j] that by (simp add: hand_returns_nth_run)
  have f2: "\<not> face_calls_returns f (pre @ run @ post) ! (length pre + j)"
    if "i < j" "j < length run" "face_calls_returns f (pre @ run @ post) ! (length pre + i)"
    using count_True_le1_nth[OF f1, of i j] that by (simp add: face_returns_nth_run)
  show ?thesis
    using h1 f1 h2 f2 by (simp only: hand_episode_returns face_episode_returns) blast
qed

theorem at_most_one_confirmation_per_episode_witness:
  "list_all fst [(True, 1000000::datetime), (True, 3000000), (True, 10000000)]
   \<and> hand_calls_returns HandGestureDetector_init
        ([(False, 0)] @ [(True, 1000000), (True, 3000000), (True, 10000000)] @ [(False, 11000000)])
      = [False, False, True, False, False]
   \<and> face_calls_returns FaceMovementDetector_init
        ([(False, 0)] @ [(True, 1000000), (True, 3000000), (True, 10000000)] @ [(False, 11000000)])
      = [False, False, True, False, False]"
  using at_most_one_confirmation_per_episode
          [of "[(True, 1000000), (True, 3000000), (True, 10000000)]" "[(False, 0)]"
              HandGestureDetector_init "[(False, 11000000)]" 1 2 FaceMovementDetector_init]
  by (simp add: HandGestureDetector_init_def FaceMovementDetector_init_def
        update_hand_raise_count_def update_looking_away_count_def total_seconds_def)

section \<open>The attention scorer\<close>

text \<open>
  C7. For every pose, the scorer sets \<open>looking_away\<close> exactly when \<open>|yaw|\<close>
  exceeds the yaw threshold or \<open>|pitch|\<close> the pitch threshold, which are 20 and 15
  by default, and \<open>attention_score\<close> to
  \<open>(max(0, 100 - |yaw| * 2) + max(0, 100 - |pitch| * 3)) / 2\<close>, a value between 0 and
  100. Angles and scores are real numbers here.
\<close>

theorem attention_scorer_formula:
  "looking_away (detect_face_movement fm (Face (Some p))) =
     (\<bar>yaw p\<bar> > yaw_threshold fm \<or> \<bar>pitch p\<bar> > pitch_threshold fm)
   \<and> looking_away (detect_face_movement FaceMovementDetector_init (Face (Some p))) =
     (\<bar>yaw p\<bar> > 20 \<or> \<bar>pitch p\<bar> > 15)
   \<and> attention_score (detect_face_movement fm (Face (Some p))) =
     (max 0 (100 - \<bar>yaw p\<bar> * 2) + max 0 (100 - \<bar>pitch p\<bar> * 3)) / 2
   \<and> 0 \<le> attention_score (detect_face_movement fm (Face (Some p)))
   \<and> attention_score (detect_face_movement fm (Face (Some p))) \<le> 100"
proof -
  have sc: "attention_score (detect_face_movement fm (Face (Some p))) =
     (max 0 (100 - \<bar>yaw p\<bar> * 2) + max 0 (100 - \<bar>pitch p\<bar> * 3)) / 2"
    by (simp add: detect_face_movement_def Let_def)
  have la: "looking_away (detect_face_movement g (Face (Some p))) =
     (\<bar>yaw p\<bar> > yaw_threshold g \<or> \<bar>pitch p\<bar> > pitch_threshold g)" for g
    by (simp add: detect_face_movement_def Let_def)
  have lo: "0 \<le> (max 0 (100 - \<bar>yaw p\<bar> * 2) + max 0 (100 - \<bar>pitch p\<bar> * 3)) / 2"
    by simp
  have nn: "0 \<le> \<bar>yaw p\<bar>" "0 \<le> \<bar>pitch p\<bar>"
    by simp_all
  have hi: "(max 0 (100 - \<bar>yaw p\<bar> * 2) + max 0 (100 - \<bar>pitch p\<bar> * 3)) / 2 \<le> 100"
    using nn unfolding max_def by (simp split: if_splits) linarith
  show ?thesis
    using sc la[of fm] la[of FaceMovementDetector_init] lo hi
    by (simp add: FaceMovementDetector_init_def)
qed

theorem attention_scorer_formula_witness:
  "looking_away (detect_face_movement FaceMovementDetector_init (Face (Some (pose_with_yaw 30))))
   \<and> attention_score (detect_face_movement FaceMovementDetector_init (Face (Some (pose_with_yaw 30)))) = 70
   \<and> \<not> looking_away (detect_face_movement FaceMovementDetector_init (Face (Some (pose_with_yaw (-20)))))
   \<and> attention_score (detect_face_movement FaceMovementDetector_init (Face (Some (pose_with_yaw (-20))))) = 80"
  using attention_scorer_formula[of FaceMovementDetector_init "pose_with_yaw 30"]
        attention_scorer_formula[of FaceMovementDetector_init "pose_with_yaw (-20)"]
  by (simp add: pose_with_yaw_def FaceMovementDetector_init_def)

section \<open>Feeding the hand-raise detector\<close>

lemma update_student_hand_detector:
  "hand_detector (update_student t dt s st) = hand_detector s"
  by (simp add: update_student_def Let_def split: option.splits)

lemma update_students_hand_detector:
  "hand_detector (foldl (update_student t dt) s sts) = hand_detector s"
  by (induction sts arbitrary: s) (simp_all add: update_student_hand_detector)

lemma process_face_hand_detector:
  "hand_detector (process_face s f) = hand_detector s"
  by (simp add: process_face_def Let_def)

lemma process_hands_hand_detector:
  "hand_detector (process_hands s f) =
     (if hands_detected (detect_hands (multi_hand_landmarks f))
      then fst (update_hand_raise_count (hand_detector s)
                  (hand_raised_now (detect_hands (multi_hand_landmarks f))) (hand_update_time f))
      else hand_detector s)"
  by (simp add: process_hands_def Let_def)

lemma hand_update_False:
  "\<not> hand_raised (fst (update_hand_raise_count d False t)) \<and>
   hand_raise_start_time (fst (update_hand_raise_count d False t)) = None"
  by (simp add: update_hand_raise_count_def)

text \<open>
  C6, as amended. On every frame in which a hand is detected, the frame's raw
  hand-raised boolean is fed into the hand-raise detector, and if it is false the
  detector is idle afterwards, with no episode start. A frame in which no hand is detected
  does not call the detector and leaves it as it was.
\<close>

theorem hand_signal_fed_when_hand_detected:
  "hand_detector (process_frame s f) =
     (if hands_detected (detect_hands (multi_hand_landmarks f))
      then fst (update_hand_raise_count (hand_detector s)
                  (hand_raised_now (detect_hands (multi_hand_landmarks f))) (hand_update_time f))
      else hand_detector s)
   \<and> (hands_detected (detect_hands (multi_hand_landmarks f)) \<and>
        \<not> hand_raised_now (detect_hands (multi_hand_landmarks f)) \<longrightarrow>
        \<not> hand_raised (hand_detector (process_frame s f)) \<and>
        hand_raise_start_time (hand_detector (process_frame s f)) = None)"
proof -
  have eq: "hand_detector (process_frame s f) =
     (if hands_detected (detect_hands (multi_hand_landmarks f))
      then fst (update_hand_raise_count (hand_detector s)
                  (hand_raised_now (detect_hands (multi_hand_landmarks f))) (hand_update_time f))
      else hand_detector s)"
    by (simp add: process_frame_def process_face_hand_detector process_hands_hand_detector
          update_students_hand_detector)
  show ?thesis
    using eq hand_update_False[of "hand_detector s" "hand_update_time f"] by auto
qed

theorem hand_signal_fed_when_hand_detected_witness:
  "hands_detected (detect_hands (multi_hand_landmarks
      ((empty_frame 500000)\<lparr> multi_hand_landmarks := [lowered_hand] \<rparr>)))
   \<and> \<not> hand_raised_now (detect_hands (multi_hand_landmarks
      ((empty_frame 500000)\<lparr> multi_hand_landmarks := [lowered_hand] \<rparr>)))
   \<and> hand_raised (hand_detector
        (process_frame BehaviorTrackingSystem_init
           ((empty_frame 0)\<lparr> multi_hand_landmarks := [raised_hand] \<rparr>)))
   \<and> \<not> hand_raised (hand_detector
        (process_frame
           (process_frame BehaviorTrackingSystem_init
              ((empty_frame 0)\<lparr> multi_hand_landmarks := [raised_hand] \<rparr>))
           ((empty_frame 500000)\<lparr> multi_hand_landmarks := [lowered_hand] \<rparr>)))
   \<and> hand_raise_start_time (hand_detector
        (process_frame
           (process_frame BehaviorTrackingSystem_init
              ((empty_frame 0)\<lparr> multi_hand_landmarks := [raised_hand] \<rparr>))
           ((empty_frame 500000)\<lparr> multi_hand_landmarks := [lowered_hand] \<rparr>))) = None"
  using hand_signal_fed_when_hand_detected
          [of "process_frame BehaviorTrackingSystem_init
                 ((empty_frame 0)\<lparr> multi_hand_landmarks := [raised_hand] \<rparr>)"
              "(empty_frame 500000)\<lparr> multi_hand_landmarks := [lowered_hand] \<rparr>"]
        hand_signal_fed_when_hand_detected
          [of BehaviorTrackingSystem_init
              "(empty_frame 0)\<lparr> multi_hand_landmarks := [raised_hand] \<rparr>"]
  by (simp add: empty_frame_def lowered_hand_def raised_hand_def detect_hands_def
        is_hand_raised_def BehaviorTrackingSystem_init_def HandGestureDetector_init_def
        update_hand_raise_count_def)

text \<open>
  The claim C6 as stated fails: after a frame with a raised hand at time 0, a frame in
  which no hand is detected (so that its raw hand-raised signal is false) leaves the
  detector in its episode, with the episode start still set.
\<close>

theorem no_hand_frame_keeps_episode:
  "\<not> hands_detected (detect_hands (multi_hand_landmarks (empty_frame 500000)))
   \<and> \<not> hand_raised_now (detect_hands (multi_hand_landmarks (empty_frame 500000)))
   \<and> hand_raised (hand_detector
        (process_frame
           (process_frame BehaviorTrackingSystem_init
              ((empty_frame 0)\<lparr> multi_hand_landmarks := [raised_hand] \<rparr>))
           (empty_frame 500000)))
   \<and> hand_raise_start_time (hand_detector
        (process_frame
           (process_frame BehaviorTrackingSystem_init
              ((empty_frame 0)\<lparr> multi_hand_landmarks := [raised_hand] \<rparr>))
           (empty_frame 500000))) = Some 0"
  by (simp add: empty_frame_def raised_hand_def detect_hands_def is_hand_raised_def
        BehaviorTrackingSystem_init_def HandGestureDetector_init_def FaceMovementDetector_init_def
        update_hand_raise_count_def process_frame_def process_hands_def process_face_def
        detect_face_movement_def Let_def)

section \<open>Attendance is marked once\<close>

lemma update_student_attendance:
  "attendance_consistent s \<Longrightarrow> attendance_consistent (update_student t dt s st)"
  by (auto simp: attendance_consistent_def update_student_def Let_def split: option.splits)

lemma update_students_attendance:
  "attendance_consistent s \<Longrightarrow> attendance_consistent (foldl (update_student t dt) s sts)"
  by (induction sts arbitrary: s) (simp_all add: update_student_attendance)

lemma process_hands_attendance:
  "mark_attendance_calls (process_hands s f) = mark_attendance_calls s"
  "attendance_marked (process_hands s f) = attendance_marked s"
  by (simp_all add: process_hands_def Let_def)

lemma process_face_attendance:
  "mark_attendance_calls (process_face s f) = mark_attendance_calls s"
  "attendance_marked (process_face s f) = attendance_marked s"
  by (simp_all add: process_face_def Let_def)

lemma process_frame_attendance:
  "attendance_consistent s \<Longrightarrow> attendance_consistent (process_frame s f)"
  using update_students_attendance[of s "frame_time f" "frame_date f" "recognized_students f"]
  by (simp add: process_frame_def attendance_consistent_def process_hands_attendance
        process_face_attendance)

lemma loop_step_attendance:
  "attendance_consistent s \<Longrightarrow> attendance_consistent (loop_step s e)"
proof (cases e)
  case (Frame f)
  then show "attendance_consistent s \<Longrightarrow> attendance_consistent (loop_step s e)"
    by (simp add: process_frame_attendance)
next
  case KeyReset
  then show "attendance_consistent s \<Longrightarrow> attendance_consistent (loop_step s e)"
    by (simp add: attendance_consistent_def reset_statistics_def)
next
  case (KeySave d)
  then show "attendance_consistent s \<Longrightarrow> attendance_consistent (loop_step s e)"
    by (simp add: attendance_consistent_def save_session_report_def split: option.splits)
qed

lemma loop_attendance:
  "attendance_consistent s \<Longrightarrow> attendance_consistent (foldl loop_step s es)"
  by (induction es arbitrary: s) (simp_all add: loop_step_attendance)

lemma distinct_count_le1: "distinct xs \<Longrightarrow> count_list xs x \<le> 1"
  by (induction xs) (auto simp: count_list_0_iff)

text \<open>
  C8. In a session of a new \<open>BehaviorTrackingSystem\<close>, whatever frames and keys the
  monitoring loop serves, \<open>mark_attendance\<close> has been called at most once for every
  student id, also after the final report; every id it was called for is in
  \<open>attendance_marked\<close>, and a frame that recognises such an id again makes no further
  call.
\<close>

theorem attendance_marked_at_most_once:
  "count_list (map att_student_id
       (mark_attendance_calls (monitoring_loop BehaviorTrackingSystem_init now events))) sid \<le> 1
   \<and> count_list (map att_student_id
       (mark_attendance_calls
          (start_monitoring_session BehaviorTrackingSystem_init now events session_date))) sid \<le> 1
   \<and> (sid \<in> set (map att_student_id
         (mark_attendance_calls (monitoring_loop BehaviorTrackingSystem_init now events))) \<longrightarrow>
       sid \<in> attendance_marked (monitoring_loop BehaviorTrackingSystem_init now events) \<and>
       mark_attendance_calls
         (update_student t dt (monitoring_loop BehaviorTrackingSystem_init now events)
            \<lparr> rs_name = n, student_id = Some sid \<rparr>) =
       mark_attendance_calls (monitoring_loop BehaviorTrackingSystem_init now events))"
proof -
  let ?s = "monitoring_loop BehaviorTrackingSystem_init now events"
  have "attendance_consistent (BehaviorTrackingSystem_init\<lparr> session_start_time := Some now \<rparr>)"
    by (simp add: attendance_consistent_def BehaviorTrackingSystem_init_def)
  then have inv: "attendance_consistent ?s"
    unfolding monitoring_loop_def by (rule loop_attendance)
  then have "distinct (map att_student_id (mark_attendance_calls ?s))"
    by (simp add: attendance_consistent_def)
  then have c1: "count_list (map att_student_id (mark_attendance_calls ?s)) sid \<le> 1"
    by (rule distinct_count_le1)
  have same: "mark_attendance_calls (save_session_report ?s session_date) = mark_attendance_calls ?s"
    by (simp add: save_session_report_def split: option.splits)
  have c2: "count_list (map att_student_id
       (mark_attendance_calls
          (start_monitoring_session BehaviorTrackingSystem_init now events session_date))) sid \<le> 1"
    using c1 same by (simp add: start_monitoring_session_def)
  have c3: "sid \<in> attendance_marked ?s"
    if "sid \<in> set (map att_student_id (mark_attendance_calls ?s))"
    using inv that by (auto simp: attendance_consistent_def)
  have c4: "mark_attendance_calls (update_student t dt ?s \<lparr> rs_name = n, student_id = Some sid \<rparr>) =
       mark_attendance_calls ?s" if "sid \<in> attendance_marked ?s"
    using that by (simp add: update_student_def Let_def)
  show ?thesis using c1 c2 c3 c4 by blast
qed

theorem attendance_marked_at_most_once_witness:
  "map att_student_id (mark_attendance_calls
      (monitoring_loop BehaviorTrackingSystem_init 0
         [Frame ((empty_frame 1000000)\<lparr> recognized_students := [known_student ''S1''] \<rparr>),
          Frame ((empty_frame 2000000)\<lparr> recognized_students :=
                   [known_student ''S1'', known_student ''S2'', known_student ''S1''] \<rparr>),
          KeyReset,
          Frame ((empty_frame 3000000)\<lparr> recognized_students := [known_student ''S2''] \<rparr>)]))
     = [''S1'', ''S2'']"
  using attendance_marked_at_most_once
          [of 0 "[Frame ((empty_frame 1000000)\<lparr> recognized_students := [known_student ''S1''] \<rparr>),
                  Frame ((empty_frame 2000000)\<lparr> recognized_students :=
                           [known_student ''S1'', known_student ''S2'', known_student ''S1''] \<rparr>),
                  KeyReset,
                  Frame ((empty_frame 3000000)\<lparr> recognized_students := [known_student ''S2''] \<rparr>)]"
              "''S1''" "''2024-03-01''" 4000000 "''2024-03-01''" "''S1''"]
  by (simp add: monitoring_loop_def process_frame_def update_student_def Let_def
        empty_frame_def known_student_def BehaviorTrackingSystem_init_def
        process_hands_def process_face_def detect_hands_def detect_face_movement_def
        dict_keys_def dict_set_def dict_modify_def reset_statistics_def dict_map_values_def)

section \<open>The session report\<close>

lemma dict_keys_modify [simp]: "dict_keys (dict_modify f k m) = dict_keys m"
  by (induction m) (simp_all add: dict_keys_def dict_modify_def)

lemma dict_keys_map_values [simp]: "dict_keys (dict_map_values f m) = dict_keys m"
  by (induction m) (simp_all add: dict_keys_def dict_map_values_def)

lemma update_student_seen:
  assumes "seen_ordered T s" "T \<le> t"
  shows "seen_ordered t (update_student t dt s st)"
proof (cases "student_id st")
  case None
  then show ?thesis
    using assms by (auto simp: update_student_def seen_ordered_def list_all_iff)
next
  case (Some sid)
  show ?thesis
    using assms Some
    by (auto simp: update_student_def seen_ordered_def Let_def dict_set_def dict_modify_def
          list_all_iff)
qed

lemma seen_ordered_mono: "seen_ordered T s \<Longrightarrow> T \<le> T' \<Longrightarrow> seen_ordered T' s"
  by (auto simp: seen_ordered_def list_all_iff)

lemma update_students_seen:
  "seen_ordered T s \<Longrightarrow> T \<le> t \<Longrightarrow> seen_ordered t (foldl (update_student t dt) s sts)"
proof (induction sts arbitrary: s T)
  case Nil
  then show ?case by (simp add: seen_ordered_mono)
next
  case (Cons st sts)
  have "seen_ordered t (update_student t dt s st)"
    using Cons.prems by (rule update_student_seen)
  then have "seen_ordered t (foldl (update_student t dt) (update_student t dt s st) sts)"
    by (rule Cons.IH) simp
  then show ?case by simp
qed

lemma list_all_dict_map_values:
  "list_all P (dict_map_values f m) = list_all (\<lambda>item. P (fst item, f (snd item))) m"
  by (induction m) (simp_all add: dict_map_values_def)

lemma process_hands_seen: "seen_ordered T s \<Longrightarrow> seen_ordered T (process_hands s f)"
  by (simp add: seen_ordered_def process_hands_def Let_def list_all_dict_map_values)

lemma process_face_seen: "seen_ordered T s \<Longrightarrow> seen_ordered T (process_face s f)"
  by (simp add: seen_ordered_def process_face_def Let_def list_all_dict_map_values)

lemma process_frame_seen:
  "seen_ordered T s \<Longrightarrow> T \<le> frame_time f \<Longrightarrow> seen_ordered (frame_time f) (process_frame s f)"
  unfolding process_frame_def
  by (rule process_face_seen, rule process_hands_seen, rule update_students_seen)

lemma reset_statistics_seen: "seen_ordered T s \<Longrightarrow> seen_ordered T (reset_statistics s)"
  by (simp add: seen_ordered_def reset_statistics_def list_all_dict_map_values)

lemma save_session_report_seen: "seen_ordered T s \<Longrightarrow> seen_ordered T (save_session_report s d)"
  by (simp add: seen_ordered_def save_session_report_def split: option.splits)

lemma loop_seen:
  "seen_ordered T s \<Longrightarrow> sorted (frame_times es) \<Longrightarrow> \<forall>t\<in>set (frame_times es). T \<le> t \<Longrightarrow>
     \<exists>T'. seen_ordered T' (foldl loop_step s es)"
proof (induction es arbitrary: s T)
  case Nil
  then show ?case by auto
next
  case (Cons e es)
  show ?case
  proof (cases e)
    case (Frame f)
    have "T \<le> frame_time f"
      using Cons.prems(3) Frame by simp
    with Cons.prems(1) have "seen_ordered (frame_time f) (process_frame s f)"
      by (rule process_frame_seen)
    moreover have "sorted (frame_times es)" "\<forall>t\<in>set (frame_times es). frame_time f \<le> t"
      using Cons.prems(2) Frame by simp_all
    ultimately show ?thesis using Cons.IH Frame by simp
  next
    case KeyReset
    have "seen_ordered T (reset_statistics s)"
      using Cons.prems(1) by (rule reset_statistics_seen)
    then show ?thesis using Cons.IH[of T "reset_statistics s"] Cons.prems KeyReset by simp
  next
    case (KeySave d)
    have "seen_ordered T (save_session_report s d)"
      using Cons.prems(1) by (rule save_session_report_seen)
    then show ?thesis using Cons.IH[of T "save_session_report s d"] Cons.prems KeySave by simp
  qed
qed

lemma monitoring_loop_seen:
  assumes "sorted (frame_times events)"
  shows "list_all (\<lambda>item. first_seen (snd item) \<le> last_seen (snd item))
           (active_students (monitoring_loop BehaviorTrackingSystem_init now events))"
proof -
  let ?s0 = "BehaviorTrackingSystem_init\<lparr> session_start_time := Some now \<rparr>"
  have "seen_ordered T ?s0" for T
    by (simp add: seen_ordered_def BehaviorTrackingSystem_init_def)
  then have "seen_ordered (Min (set (now # frame_times events))) ?s0" .
  moreover have "\<forall>t\<in>set (frame_times events). Min (set (now # frame_times events)) \<le> t"
    by simp
  ultimately obtain T' where T': "seen_ordered T' (foldl loop_step ?s0 events)"
    using loop_seen[OF _ assms] by blast
  show ?thesis
    using T' by (auto simp: seen_ordered_def monitoring_loop_def list_all_iff)
qed

lemma monitoring_loop_started:
  "session_start_time (monitoring_loop s now events) = Some now"
proof -
  have step: "session_start_time (loop_step s' e) = session_start_time s'" for s' e
  proof (cases e)
    case (Frame f)
    have a: "session_start_time (update_student t dt x st) = session_start_time x" for t dt x st
      by (simp add: update_student_def Let_def split: option.splits)
    have b: "session_start_time (foldl (update_student t dt) x sts) = session_start_time x"
      for t dt x sts
      by (induction sts arbitrary: x) (simp_all add: a)
    show ?thesis
      using Frame by (simp add: process_frame_def process_face_def process_hands_def Let_def b)
  next
    case KeyReset
    then show ?thesis by (simp add: reset_statistics_def)
  next
    case (KeySave d)
    then show ?thesis by (simp add: save_session_report_def split: option.splits)
  qed
  have "session_start_time (foldl loop_step s' events) = session_start_time s'" for s'
    by (induction events arbitrary: s') (simp_all add: step)
  then show ?thesis by (simp add: monitoring_loop_def)
qed

lemma py_int_total_seconds:
  "0 \<le> d \<Longrightarrow> py_int (total_seconds d) = d div 1000000"
proof -
  assume d: "0 \<le> d"
  have "\<lfloor>real_of_int d / real_of_int 1000000\<rfloor> = d div 1000000"
    by (rule floor_divide_of_int_eq)
  then show ?thesis using d by (simp add: py_int_def total_seconds_def)
qed


lemma session_report_appended:
  "log_behavior_calls
     (start_monitoring_session BehaviorTrackingSystem_init now events session_date) =
   log_behavior_calls (monitoring_loop BehaviorTrackingSystem_init now events) @
   map (student_report session_date)
     (active_students (monitoring_loop BehaviorTrackingSystem_init now events))"
  by (simp add: start_monitoring_session_def save_session_report_def monitoring_loop_started)

lemma update_student_keys:
  "distinct (dict_keys (active_students s)) \<Longrightarrow>
     distinct (dict_keys (active_students (update_student t dt s st)))"
  by (auto simp: update_student_def Let_def dict_set_def split: option.splits)
    (auto simp: dict_keys_def)

lemma update_students_keys:
  "distinct (dict_keys (active_students s)) \<Longrightarrow>
     distinct (dict_keys (active_students (foldl (update_student t dt) s sts)))"
  by (induction sts arbitrary: s) (simp_all add: update_student_keys)

lemma process_hands_keys:
  "dict_keys (active_students (process_hands s f)) = dict_keys (active_students s)"
  by (simp add: process_hands_def Let_def)

lemma process_face_keys:
  "dict_keys (active_students (process_face s f)) = dict_keys (active_students s)"
  by (simp add: process_face_def Let_def)

lemma loop_step_keys:
  "distinct (dict_keys (active_students s)) \<Longrightarrow>
     distinct (dict_keys (active_students (loop_step s e)))"
proof (cases e)
  case (Frame f)
  then show "distinct (dict_keys (active_students s)) \<Longrightarrow>
     distinct (dict_keys (active_students (loop_step s e)))"
    by (simp add: process_frame_def process_face_keys process_hands_keys update_students_keys)
next
  case KeyReset
  then show "distinct (dict_keys (active_students s)) \<Longrightarrow>
     distinct (dict_keys (active_students (loop_step s e)))"
    by (simp add: reset_statistics_def)
next
  case (KeySave d)
  then show "distinct (dict_keys (active_students s)) \<Longrightarrow>
     distinct (dict_keys (active_students (loop_step s e)))"
    by (simp add: save_session_report_def split: option.splits)
qed

lemma loop_keys:
  "distinct (dict_keys (active_students s)) \<Longrightarrow>
     distinct (dict_keys (active_students (foldl loop_step s es)))"
  by (induction es arbitrary: s) (simp_all add: loop_step_keys)

lemma monitoring_loop_keys:
  "distinct (dict_keys (active_students (monitoring_loop BehaviorTrackingSystem_init now events)))"
  unfolding monitoring_loop_def
  by (rule loop_keys) (simp add: BehaviorTrackingSystem_init_def dict_keys_def)

lemma py_int_total_seconds_neg:
  "d < 0 \<Longrightarrow> py_int (total_seconds d) = - ((- d) div 1000000)"
proof -
  assume d: "d < 0"
  have "\<lfloor>real_of_int (- d) / real_of_int 1000000\<rfloor> = (- d) div 1000000"
    by (rule floor_divide_of_int_eq)
  then have "\<lceil>real_of_int d / 1000000\<rceil> = - ((- d) div 1000000)"
    by (simp add: ceiling_def)
  moreover have "\<not> 0 \<le> total_seconds d"
    using d by (simp add: total_seconds_def)
  ultimately show ?thesis by (simp add: py_int_def total_seconds_def)
qed

lemma student_report_duration_general:
  "log_total_duration (student_report session_date item) =
     (if first_seen (snd item) \<le> last_seen (snd item)
      then (last_seen (snd item) - first_seen (snd item)) div 1000000
      else - ((first_seen (snd item) - last_seen (snd item)) div 1000000))"
  using py_int_total_seconds[of "last_seen (snd item) - first_seen (snd item)"]
        py_int_total_seconds_neg[of "last_seen (snd item) - first_seen (snd item)"]
  by (simp add: student_report_def Let_def)

text \<open>
  C9, as amended. When a session of a new \<open>BehaviorTrackingSystem\<close> ends, after
  any frames and keys, the final report adds to the behaviour log exactly one entry for
  every student record, in the order of the records, whose ids are distinct. The entry of
  a record has its id, its counters and the session date; its attention score is the
  arithmetic mean of the record's attention scores, or 0 if there are none; its duration
  is \<open>last_seen - first_seen\<close> in whole seconds (rounded towards zero). When the
  clock values read by the frames are nondecreasing, every duration is not negative. With
  no student record the report adds no entry.
\<close>

theorem session_report_one_entry_per_student:
  fixes now :: datetime and events :: "loop_event list" and session_date :: string
  defines "s \<equiv> monitoring_loop BehaviorTrackingSystem_init now events"
  defines "final \<equiv> start_monitoring_session BehaviorTrackingSystem_init now events session_date"
  defines "report \<equiv> drop (length (log_behavior_calls s)) (log_behavior_calls final)"
  shows "take (length (log_behavior_calls s)) (log_behavior_calls final) = log_behavior_calls s
       \<and> map log_student_id report = dict_keys (active_students s)
       \<and> distinct (dict_keys (active_students s))
       \<and> map log_attention_score report =
           map (\<lambda>item. if attention_scores (snd item) = [] then 0
                        else sum_list (attention_scores (snd item)) /
                             real (length (attention_scores (snd item))))
             (active_students s)
       \<and> map log_total_duration report =
           map (\<lambda>item. if first_seen (snd item) \<le> last_seen (snd item)
                        then (last_seen (snd item) - first_seen (snd item)) div 1000000
                        else - ((first_seen (snd item) - last_seen (snd item)) div 1000000))
             (active_students s)
       \<and> (sorted (frame_times events) \<longrightarrow>
            list_all (\<lambda>e. 0 \<le> log_total_duration e) report \<and>
            map log_total_duration report =
              map (\<lambda>item. (last_seen (snd item) - first_seen (snd item)) div 1000000)
                (active_students s))
       \<and> map log_hand_raises report = map (\<lambda>item. hand_raises (snd item)) (active_students s)
       \<and> map log_looking_away_count report =
           map (\<lambda>item. looking_away_count (snd item)) (active_students s)
       \<and> map log_session_date report = map (\<lambda>item. session_date) (active_students s)
       \<and> (active_students s = [] \<longrightarrow> log_behavior_calls final = log_behavior_calls s)"
proof -
  have fin: "log_behavior_calls final =
      log_behavior_calls s @ map (student_report session_date) (active_students s)"
    unfolding final_def s_def by (rule session_report_appended)
  then have rep: "report = map (student_report session_date) (active_students s)"
    by (simp add: report_def)
  have c1: "take (length (log_behavior_calls s)) (log_behavior_calls final) = log_behavior_calls s"
    using fin by simp
  have c2: "map log_student_id report = dict_keys (active_students s)"
    by (simp add: rep dict_keys_def student_report_def Let_def)
  have c3: "distinct (dict_keys (active_students s))"
    unfolding s_def by (rule monitoring_loop_keys)
  have c4: "map log_attention_score report =
           map (\<lambda>item. if attention_scores (snd item) = [] then 0
                        else sum_list (attention_scores (snd item)) /
                             real (length (attention_scores (snd item))))
             (active_students s)"
    by (simp add: rep student_report_def Let_def np_mean_def)
  have c5: "map log_total_duration report =
           map (\<lambda>item. if first_seen (snd item) \<le> last_seen (snd item)
                        then (last_seen (snd item) - first_seen (snd item)) div 1000000
                        else - ((first_seen (snd item) - last_seen (snd item)) div 1000000))
             (active_students s)"
    by (simp add: rep student_report_duration_general)
  have c6: "list_all (\<lambda>e. 0 \<le> log_total_duration e) report \<and>
            map log_total_duration report =
              map (\<lambda>item. (last_seen (snd item) - first_seen (snd item)) div 1000000)
                (active_students s)"
    if "sorted (frame_times events)"
  proof -
    have ord: "list_all (\<lambda>item. first_seen (snd item) \<le> last_seen (snd item)) (active_students s)"
      unfolding s_def using that by (rule monitoring_loop_seen)
    have "list_all (\<lambda>e. 0 \<le> log_total_duration e) report"
      using ord
      by (simp add: rep list_all_iff student_report_duration_general pos_imp_zdiv_nonneg_iff)
    moreover have "map log_total_duration report =
              map (\<lambda>item. (last_seen (snd item) - first_seen (snd item)) div 1000000)
                (active_students s)"
      using ord by (simp add: rep list_all_iff student_report_duration_general)
    ultimately show ?thesis by blast
  qed
  have c7: "map log_hand_raises report = map (\<lambda>item. hand_raises (snd item)) (active_students s)"
    by (simp add: rep student_report_def Let_def)
  have c8: "map log_looking_away_count report =
           map (\<lambda>item. looking_away_count (snd item)) (active_students s)"
    by (simp add: rep student_report_def Let_def)
  have c9: "map log_session_date report = map (\<lambda>item. session_date) (active_students s)"
    by (simp add: rep student_report_def Let_def)
  have c10: "active_students s = [] \<longrightarrow> log_behavior_calls final = log_behavior_calls s"
    using fin by simp
  show ?thesis using c1 c2 c3 c4 c5 c6 c7 c8 c9 c10 by blast
qed

theorem session_report_one_entry_per_student_witness:
  "sorted (frame_times
      [Frame ((empty_frame 36000000000)\<lparr> recognized_students := [known_student ''S1''],
                                          face_results := Face (Some (pose_with_yaw 20)) \<rparr>),
       Frame ((empty_frame 36120000000)\<lparr> recognized_students := [known_student ''S1''],
                                          face_results := Face (Some (pose_with_yaw 40)) \<rparr>),
       Frame ((empty_frame 36330000000)\<lparr> recognized_students := [known_student ''S1''],
                                          face_results := Face (Some (pose_with_yaw 30)) \<rparr>)])
   \<and> log_behavior_calls
       (start_monitoring_session BehaviorTrackingSystem_init 35990000000
          [Frame ((empty_frame 36000000000)\<lparr> recognized_students := [known_student ''S1''],
                                              face_results := Face (Some (pose_with_yaw 20)) \<rparr>),
           Frame ((empty_frame 36120000000)\<lparr> recognized_students := [known_student ''S1''],
                                              face_results := Face (Some (pose_with_yaw 40)) \<rparr>),
           Frame ((empty_frame 36330000000)\<lparr> recognized_students := [known_student ''S1''],
                                              face_results := Face (Some (pose_with_yaw 30)) \<rparr>)]
          ''2024-03-01'')
     = [\<lparr> log_student_id = ''S1'',
          log_session_date = ''2024-03-01'',
          log_attention_score = 70,
          log_hand_raises = 0,
          log_looking_away_count = 1,
          log_total_duration = 330 \<rparr>]"
  using session_report_one_entry_per_student
          [where events = "[Frame ((empty_frame 36000000000)\<lparr> recognized_students := [known_student ''S1''],
                                              face_results := Face (Some (pose_with_yaw 20)) \<rparr>),
           Frame ((empty_frame 36120000000)\<lparr> recognized_students := [known_student ''S1''],
                                              face_results := Face (Some (pose_with_yaw 40)) \<rparr>),
           Frame ((empty_frame 36330000000)\<lparr> recognized_students := [known_student ''S1''],
                                              face_results := Face (Some (pose_with_yaw 30)) \<rparr>)]"
             and now = 35990000000 and session_date = "''2024-03-01''"]
  by (simp add: start_monitoring_session_def monitoring_loop_def save_session_report_def
        student_report_def np_mean_def py_int_def total_seconds_def
        process_frame_def update_student_def Let_def
        empty_frame_def known_student_def pose_with_yaw_def BehaviorTrackingSystem_init_def
        FaceMovementDetector_init_def HandGestureDetector_init_def
        process_hands_def process_face_def detect_hands_def detect_face_movement_def
        update_looking_away_count_def
        dict_keys_def dict_set_def dict_modify_def dict_map_values_def)

text \<open>
  The claim C9 as stated fails in its last part, that the duration is never negative:
  \<open>first_seen\<close> and \<open>last_seen\<close> are values of \<open>datetime.now()\<close>, a
  wall clock that can be set back. A student is seen in a frame at 10 s and again in a
  frame whose clock reads 8.5 s; the report logs \<open>int(-1.5) = -1\<close> seconds.
\<close>

theorem clock_step_back_negative_duration:
  "map log_total_duration
     (log_behavior_calls
        (start_monitoring_session BehaviorTrackingSystem_init 0
           [Frame ((empty_frame 10000000)\<lparr> recognized_students := [known_student ''S1''] \<rparr>),
            Frame ((empty_frame 8500000)\<lparr> recognized_students := [known_student ''S1''] \<rparr>)]
           ''2024-03-01''))
   = [- 1]"
  by (simp add: start_monitoring_session_def monitoring_loop_def save_session_report_def
        student_report_duration_general
        process_frame_def update_student_def Let_def
        empty_frame_def known_student_def BehaviorTrackingSystem_init_def
        FaceMovementDetector_init_def HandGestureDetector_init_def
        process_hands_def process_face_def detect_hands_def detect_face_movement_def
        dict_keys_def dict_set_def dict_modify_def dict_map_values_def)

section \<open>Crediting events and samples to the student records\<close>

lemma process_hands_confirmed:
  assumes "hands_detected (detect_hands (multi_hand_landmarks f))"
      and "hand_raised_now (detect_hands (multi_hand_landmarks f))"
      and "snd (update_hand_raise_count (hand_detector s) True (hand_update_time f))"
  shows "active_students (process_hands s f) =
           dict_map_values (\<lambda>d. d\<lparr> hand_raises := hand_raises d + 1 \<rparr>) (active_students s)"
  using assms by (simp add: process_hands_def Let_def)

lemma process_face_hand_raises:
  "map (\<lambda>item. (fst item, hand_raises (snd item))) (active_students (process_face s f)) =
   map (\<lambda>item. (fst item, hand_raises (snd item))) (active_students s)"
  by (simp add: process_face_def Let_def dict_map_values_def comp_def)

lemma hand_raise_credited_to_every_record:
  assumes "hands_detected (detect_hands (multi_hand_landmarks f))"
      and "hand_raised_now (detect_hands (multi_hand_landmarks f))"
      and "snd (update_hand_raise_count (hand_detector s) True (hand_update_time f))"
  shows "map (\<lambda>item. (fst item, hand_raises (snd item)))
           (active_students (process_face (process_hands s f) f)) =
         map (\<lambda>item. (fst item, hand_raises (snd item) + 1)) (active_students s)"
  using process_hands_confirmed[OF assms]
  by (simp add: process_face_hand_raises dict_map_values_def comp_def)

text \<open>
  C4. The claim holds for the students visible in the frame, but the code also credits
  the hand raise to records of students who are not visible: every record of
  \<open>active_students\<close> is incremented, and a record stays there once its student was seen.
  Student \<open>S1\<close> is recognised in the first frame only; the second frame, 1.5 seconds
  later, shows \<open>S2\<close> alone and confirms the hand raise, and both records are
  incremented.
\<close>

theorem hand_raise_credited_to_absent_student:
  "map student_id (recognized_students
      ((empty_frame 1500000)\<lparr> recognized_students := [known_student ''S2''],
                              multi_hand_landmarks := [raised_hand] \<rparr>)) = [Some ''S2'']
   \<and> map (\<lambda>item. (fst item, hand_raises (snd item)))
       (active_students
          (process_frame BehaviorTrackingSystem_init
             ((empty_frame 0)\<lparr> recognized_students := [known_student ''S1''],
                               multi_hand_landmarks := [raised_hand] \<rparr>)))
     = [(''S1'', 0)]
   \<and> map (\<lambda>item. (fst item, hand_raises (snd item)))
       (active_students
          (process_frame
             (process_frame BehaviorTrackingSystem_init
                ((empty_frame 0)\<lparr> recognized_students := [known_student ''S1''],
                                  multi_hand_landmarks := [raised_hand] \<rparr>))
             ((empty_frame 1500000)\<lparr> recognized_students := [known_student ''S2''],
                                     multi_hand_landmarks := [raised_hand] \<rparr>)))
     = [(''S1'', 1), (''S2'', 1)]"
  by (simp add: process_frame_def update_student_def Let_def
        empty_frame_def known_student_def raised_hand_def BehaviorTrackingSystem_init_def
        FaceMovementDetector_init_def HandGestureDetector_init_def
        process_hands_def process_face_def detect_hands_def is_hand_raised_def
        detect_face_movement_def update_hand_raise_count_def total_seconds_def
        dict_keys_def dict_set_def dict_modify_def dict_map_values_def)

lemma no_face_no_sample: "face_results f = NoFace \<Longrightarrow> process_face s f = s"
  by (simp add: process_face_def detect_face_movement_def Let_def)

text \<open>
  C5. The claim holds when the face mesh finds no face: then \<open>_process_frame\<close> skips
  step 3. But when it finds a face and \<open>_calculate_head_pose\<close> returns \<open>None\<close>,
  \<open>detect_face_movement\<close> reports \<open>face_detected\<close> with the initial
  \<open>attention_score\<close> 0, and \<open>_process_frame\<close> appends that 0 to the attention
  scores of every record.
\<close>

theorem zero_sample_recorded_without_pose:
  "face_detected (detect_face_movement FaceMovementDetector_init (Face None))
   \<and> fd_head_pose (detect_face_movement FaceMovementDetector_init (Face None)) = None
   \<and> attention_score (detect_face_movement FaceMovementDetector_init (Face None)) = 0
   \<and> map (\<lambda>item. (fst item, attention_scores (snd item)))
       (active_students
          (process_frame BehaviorTrackingSystem_init
             ((empty_frame 0)\<lparr> recognized_students := [known_student ''S1''],
                               face_results := Face None \<rparr>)))
     = [(''S1'', [0])]"
  by (simp add: process_frame_def update_student_def Let_def
        empty_frame_def known_student_def BehaviorTrackingSystem_init_def
        FaceMovementDetector_init_def HandGestureDetector_init_def
        process_hands_def process_face_def detect_hands_def
        detect_face_movement_def update_looking_away_count_def
        dict_keys_def dict_set_def dict_modify_def dict_map_values_def)

section \<open>Resetting the statistics\<close>

text \<open>
  C10. \<open>_reset_statistics\<close> sets \<open>hand_raises\<close> and \<open>looking_away_count\<close> to 0 and
  empties \<open>attention_scores\<close> in every student record, keeping the records, their order
  and their other fields; it resets the count and the debounce state of both detectors,
  keeping their thresholds; it leaves the attendance set, the session start time and the
  database calls as they are.
\<close>

theorem reset_statistics_frame:
  "active_students (reset_statistics s) =
     map (\<lambda>item. (fst item,
            \<lparr> name = name (snd item),
              first_seen = first_seen (snd item),
              last_seen = last_seen (snd item),
              hand_raises = 0,
              looking_away_count = 0,
              attention_scores = [],
              total_frames = total_frames (snd item) \<rparr>)) (active_students s)
   \<and> hand_detector (reset_statistics s) =
     \<lparr> hand_raised = False,
       hand_raise_start_time = None,
       hand_raise_duration_threshold = hand_raise_duration_threshold (hand_detector s),
       hand_raise_count = 0,
       last_hand_raise_time = None,
       hand_cooldown_period = hand_cooldown_period (hand_detector s) \<rparr>
   \<and> face_movement_detector (reset_statistics s) =
     \<lparr> face_looking_away_count = 0,
       is_looking_away = False,
       looking_away_start_time = None,
       looking_away_threshold = looking_away_threshold (face_movement_detector s),
       last_looking_away_time = None,
       face_cooldown_period = face_cooldown_period (face_movement_detector s),
       yaw_threshold = yaw_threshold (face_movement_detector s),
       pitch_threshold = pitch_threshold (face_movement_detector s) \<rparr>
   \<and> attendance_marked (reset_statistics s) = attendance_marked s
   \<and> session_start_time (reset_statistics s) = session_start_time s
   \<and> mark_attendance_calls (reset_statistics s) = mark_attendance_calls s
   \<and> log_behavior_calls (reset_statistics s) = log_behavior_calls s"
  by (simp add: reset_statistics_def dict_map_values_def hand_reset_count_def face_reset_count_def)

end
